theory Spec2Isabelle
  imports Main "HOL-Library.AList"
begin

section \<open>Python values, strings and exceptions\<close>

text \<open>
  The engine of \<^verbatim>\<open>main.py\<close> threads a \<^verbatim>\<open>Dict[str, Any]\<close> through the
  step functions. The values that reach it from a JSON request body are modelled by
  \<open>pyval\<close>; a dictionary is an association list in insertion order, read with
  \<open>map_of\<close> and written with \<open>AList.update\<close>. JSON floats are left out of the model.
  Strings are lists of ASCII characters.
\<close>

datatype pyval =
    PNone
  | PBool bool
  | PInt int
  | PStr string
  | PList "pyval list"
  | PDict "(string \<times> pyval) list"

type_synonym py_dict = "(string \<times> pyval) list"

definition dict_get :: "py_dict \<Rightarrow> string \<Rightarrow> pyval \<Rightarrow> pyval" where
  \<comment> \<open>\<^verbatim>\<open>d.get(k, default)\<close>\<close>
  "dict_get d k dflt = (case map_of d k of None \<Rightarrow> dflt | Some v \<Rightarrow> v)"

definition dict_set :: "py_dict \<Rightarrow> string \<Rightarrow> pyval \<Rightarrow> py_dict" where
  \<comment> \<open>\<^verbatim>\<open>d[k] = v\<close>\<close>
  "dict_set d k v = AList.update k v d"

definition type_name :: "pyval \<Rightarrow> string" where
  "type_name v = (case v of
      PNone \<Rightarrow> ''NoneType''
    | PBool _ \<Rightarrow> ''bool''
    | PInt _ \<Rightarrow> ''int''
    | PStr _ \<Rightarrow> ''str''
    | PList _ \<Rightarrow> ''list''
    | PDict _ \<Rightarrow> ''dict'')"

subsection \<open>Rendering values as text\<close>

definition digit_char :: "nat \<Rightarrow> char" where
  "digit_char n = ''0123456789abcdef'' ! (n mod 16)"

fun str_nat :: "nat \<Rightarrow> string" where
  "str_nat n = (if n < 10 then [digit_char n] else str_nat (n div 10) @ [digit_char (n mod 10)])"

declare str_nat.simps [simp del]

definition str_int :: "int \<Rightarrow> string" where
  \<comment> \<open>\<^verbatim>\<open>str(i)\<close> of a Python int\<close>
  "str_int i = (if i < 0 then CHR ''-'' # str_nat (nat (- i)) else str_nat (nat i))"

definition escape_char :: "char \<Rightarrow> char \<Rightarrow> string" where
  "escape_char q c =
     (if c = CHR 0x5C then [CHR 0x5C, CHR 0x5C]
      else if c = q then [CHR 0x5C, q]
      else if c = CHR 0x0A then [CHR 0x5C, CHR ''n'']
      else if c = CHR 0x0D then [CHR 0x5C, CHR ''r'']
      else if c = CHR 0x09 then [CHR 0x5C, CHR ''t'']
      else if (of_char c :: nat) < 32 \<or> (of_char c :: nat) = 127
        then [CHR 0x5C, CHR ''x'', digit_char (of_char c div 16), digit_char (of_char c mod 16)]
      else [c])"

definition repr_str :: "string \<Rightarrow> string" where
  \<comment> \<open>\<^verbatim>\<open>repr(s)\<close> of an ASCII string: single quotes, unless the text holds a single and
      no double quote\<close>
  "repr_str s =
     (let q = (if CHR 0x27 \<in> set s \<and> CHR 0x22 \<notin> set s then CHR 0x22 else CHR 0x27)
      in q # concat (map (escape_char q) s) @ [q])"

fun join_str :: "string \<Rightarrow> string list \<Rightarrow> string" where
  "join_str sep [] = []"
| "join_str sep [x] = x"
| "join_str sep (x # y # ys) = x @ sep @ join_str sep (y # ys)"

fun py_repr :: "pyval \<Rightarrow> string" where
  "py_repr PNone = ''None''"
| "py_repr (PBool b) = (if b then ''True'' else ''False'')"
| "py_repr (PInt i) = str_int i"
| "py_repr (PStr s) = repr_str s"
| "py_repr (PList xs) = ''['' @ join_str '', '' (map py_repr xs) @ '']''"
| "py_repr (PDict kvs) =
     ''{'' @ join_str '', '' (map (\<lambda>(k, v). repr_str k @ '': '' @ py_repr v) kvs) @ ''}''"

definition py_str :: "pyval \<Rightarrow> string" where
  \<comment> \<open>\<^verbatim>\<open>str(v)\<close>, which is also what an f-string field \<^verbatim>\<open>{v}\<close> renders\<close>
  "py_str v = (case v of PStr s \<Rightarrow> s | _ \<Rightarrow> py_repr v)"

definition repr_str_list :: "string list \<Rightarrow> string" where
  \<comment> \<open>\<^verbatim>\<open>repr\<close> of a list of strings\<close>
  "repr_str_list xs = ''['' @ join_str '', '' (map repr_str xs) @ '']''"

subsection \<open>Exceptions\<close>

text \<open>
  What a step or the engine raises is a value of \<open>py_exn\<close>; these are the subclasses of
  \<^verbatim>\<open>Exception\<close> that \<^verbatim>\<open>except Exception\<close> catches. \<open>str_exn\<close> is \<^verbatim>\<open>str(e)\<close>: the
  message, and for a \<^verbatim>\<open>KeyError\<close> the \<^verbatim>\<open>repr\<close> of the missing key.
\<close>

datatype py_exn =
    ValueError string
  | KeyError string
  | TypeError string
  | AttributeError string
  | Exception string

fun str_exn :: "py_exn \<Rightarrow> string" where
  "str_exn (ValueError m) = m"
| "str_exn (KeyError k) = repr_str k"
| "str_exn (TypeError m) = m"
| "str_exn (AttributeError m) = m"
| "str_exn (Exception m) = m"

section \<open>Data model\<close>

datatype WorkflowStatus = PENDING | RUNNING | COMPLETED | FAILED

record WorkflowState =
  data :: py_dict
  history :: "string list"

text \<open>
  An edge is either a successor name or a dictionary from outcome labels to an
  optional successor (\<^verbatim>\<open>Union[str, Dict[str, Optional[str]]]\<close>).
\<close>

datatype edge_config =
    EdgeStr string
  | EdgeDict "(string \<times> string option) list"

record GraphDefinition =
  nodes :: "string list"
  edges :: "(string \<times> edge_config) list"
  start_node :: string

record WorkflowRun =
  run_id :: string
  graph_id :: string
  status :: WorkflowStatus
  state :: WorkflowState
  current_node :: "string option"
  error :: "string option"

text \<open>
  A step receives \<^verbatim>\<open>state.data\<close>, may change it in place, and returns a value or raises.
  The dictionary it leaves behind is part of the result in both cases.
\<close>

type_synonym step = "py_dict \<Rightarrow> py_dict \<times> (py_exn + pyval)"

record WorkflowEngine =
  registry :: "string \<rightharpoonup> step"
  max_steps :: int

definition WorkflowEngine_init :: "(string \<rightharpoonup> step) \<Rightarrow> WorkflowEngine" where
  "WorkflowEngine_init tool_registry = \<lparr>registry = tool_registry, max_steps = 50\<rparr>"

definition register_tool :: "WorkflowEngine \<Rightarrow> string \<Rightarrow> step \<Rightarrow> WorkflowEngine" where
  "register_tool eng name func = eng\<lparr>registry := (registry eng)(name \<mapsto> func)\<rparr>"

section \<open>Node execution\<close>

text \<open>
  \<^verbatim>\<open>execute_node\<close> returns the state it leaves and either the exception it raises or
  the outcome label. A run executes one node at a time, so awaiting an asynchronous step
  and calling a synchronous one are the same application of the step to the data.
\<close>

definition quoted :: "string \<Rightarrow> string" where
  \<comment> \<open>the text between single quotes, as in the f-string \<^verbatim>\<open>'{name}'\<close>\<close>
  "quoted s = [CHR 0x27] @ s @ [CHR 0x27]"

definition execute_node ::
  "WorkflowEngine \<Rightarrow> string \<Rightarrow> WorkflowState \<Rightarrow> WorkflowState \<times> (py_exn + string)" where
  "execute_node eng node_name st =
     (case registry eng node_name of
        None \<Rightarrow> (st, Inl (ValueError (''Node '' @ quoted node_name @ '' not found in registry.'')))
      | Some func \<Rightarrow>
          (let st1 = st\<lparr>history := history st @ [''Executing: '' @ node_name]\<rparr>
           in case func (data st1) of
                (d, Inr result) \<Rightarrow>
                  (st1\<lparr>data := d\<rparr>, Inr (case result of PStr s \<Rightarrow> s | _ \<Rightarrow> ''next''))
              | (d, Inl e) \<Rightarrow>
                  (st1\<lparr>data := d,
                       history := history st1 @ [''Error in '' @ node_name @ '': '' @ str_exn e]\<rparr>,
                   Inl e)))"

section \<open>Graph traversal\<close>

text \<open>
  The \<^verbatim>\<open>while\<close> loop of \<^verbatim>\<open>run_workflow\<close>, with \<open>current_node\<close> and \<open>steps\<close> as
  arguments. The second component of the result is the exception that unwinds out of
  the loop, if any. A name is falsy when it is \<^verbatim>\<open>None\<close> or the empty string, an edge
  configuration when it is absent, the empty string or the empty dictionary.
\<close>

function run_workflow_loop ::
  "WorkflowEngine \<Rightarrow> GraphDefinition \<Rightarrow> string option \<Rightarrow> int \<Rightarrow> WorkflowState
     \<Rightarrow> WorkflowState \<times> py_exn option" where
  "run_workflow_loop eng graph cur steps st =
     (case cur of
        None \<Rightarrow> (st, None)
      | Some node \<Rightarrow>
          if node = [] then (st, None)
          else if steps + 1 > max_steps eng then
            (st\<lparr>history := history st @
                 [''Max steps ('' @ str_int (max_steps eng) @ '') reached. Terminating.'']\<rparr>, None)
          else (case execute_node eng node st of
                  (st1, Inl e) \<Rightarrow> (st1, Some e)
                | (st1, Inr outcome) \<Rightarrow>
                    (case map_of (edges graph) node of
                       None \<Rightarrow> (st1, None)
                     | Some (EdgeStr target) \<Rightarrow>
                         if target = [] then (st1, None)
                         else run_workflow_loop eng graph (Some target) (steps + 1) st1
                     | Some (EdgeDict m) \<Rightarrow>
                         if m = [] then (st1, None)
                         else (let nxt = (case map_of m outcome of None \<Rightarrow> None | Some dest \<Rightarrow> dest)
                               in if nxt = None \<and> map_of m outcome = None then
                                    (st1\<lparr>history := history st1 @
                                       [''Warning: Outcome '' @ quoted outcome @
                                        '' not defined in edges for node. Ending workflow.'']\<rparr>, None)
                                  else run_workflow_loop eng graph nxt (steps + 1) st1))))"
  by pat_completeness auto
termination
  by (relation "measure (\<lambda>(eng, graph, cur, steps, st). nat (max_steps eng - steps))") auto

declare run_workflow_loop.simps [simp del]

definition run_workflow ::
  "WorkflowEngine \<Rightarrow> GraphDefinition \<Rightarrow> WorkflowState \<Rightarrow> WorkflowState \<times> py_exn option" where
  "run_workflow eng graph st =
     (case run_workflow_loop eng graph (Some (start_node graph)) 0 st of
        (st1, Some e) \<Rightarrow> (st1, Some e)
      | (st1, None) \<Rightarrow> (st1\<lparr>history := history st1 @ [''Workflow Completed.'']\<rparr>, None))"

section \<open>Run lifecycle\<close>

text \<open>
  \<^verbatim>\<open>run_workflow_background\<close>: the run store is a map from run identifiers to runs and
  is returned updated. Reading \<^verbatim>\<open>runs_db[run_id]\<close> happens outside the \<^verbatim>\<open>try\<close>
  block, so a missing run is an exception of the task itself; everything after it is
  caught and recorded in the run.
\<close>

definition mark_failed :: "WorkflowRun \<Rightarrow> WorkflowState \<Rightarrow> py_exn \<Rightarrow> WorkflowRun" where
  \<comment> \<open>the \<^verbatim>\<open>except Exception as e\<close> handler; \<open>st\<close> is the state the failure left\<close>
  "mark_failed run st e =
     run\<lparr>status := FAILED,
         error := Some (str_exn e),
         state := st\<lparr>history := history st @ [''Workflow failed: '' @ str_exn e]\<rparr>\<rparr>"

definition run_workflow_background ::
  "WorkflowEngine \<Rightarrow> (string \<rightharpoonup> GraphDefinition) \<Rightarrow> (string \<rightharpoonup> WorkflowRun) \<Rightarrow> string
     \<Rightarrow> py_exn + (string \<rightharpoonup> WorkflowRun)" where
  "run_workflow_background eng graphs_db runs_db rid =
     (case runs_db rid of
        None \<Rightarrow> Inl (KeyError rid)
      | Some run0 \<Rightarrow>
          (let run = run0\<lparr>status := RUNNING\<rparr>
           in case graphs_db (graph_id run) of
                None \<Rightarrow> Inr (runs_db(rid \<mapsto> mark_failed run (state run) (KeyError (graph_id run))))
              | Some graph \<Rightarrow>
                  (case run_workflow eng graph (state run) of
                     (st1, None) \<Rightarrow> Inr (runs_db(rid \<mapsto> run\<lparr>state := st1, status := COMPLETED\<rparr>))
                   | (st1, Some e) \<Rightarrow> Inr (runs_db(rid \<mapsto> mark_failed run st1 e)))))"

section \<open>Graph validation\<close>

text \<open>
  The two validators of \<^verbatim>\<open>GraphDefinition\<close>. The argument \<open>values\<close> of a validator holds
  the fields validated before it; only \<^verbatim>\<open>nodes\<close> is read, so it is passed as an optional
  list of names. A validator returns the message of the \<^verbatim>\<open>ValueError\<close> it raises, or
  the value.
\<close>

definition validate_start_node :: "string \<Rightarrow> string list option \<Rightarrow> string + string" where
  "validate_start_node v values_nodes =
     (case values_nodes of
        None \<Rightarrow> Inr v
      | Some ns \<Rightarrow>
          if v \<notin> set ns then Inl (''start_node '' @ quoted v @ '' must be in nodes list'')
          else Inr v)"

fun validate_targets :: "string list \<Rightarrow> (string \<times> string option) list \<Rightarrow> string option" where
  \<comment> \<open>the inner loop over \<^verbatim>\<open>target.items()\<close>: the message of the first failure\<close>
  "validate_targets ns [] = None"
| "validate_targets ns ((outcome, dest) # rest) =
     (case dest of
        None \<Rightarrow> validate_targets ns rest
      | Some d \<Rightarrow>
          if d \<notin> set ns then Some (''Edge target '' @ quoted d @ '' not in nodes list'')
          else validate_targets ns rest)"

fun validate_edge_items :: "string list \<Rightarrow> (string \<times> edge_config) list \<Rightarrow> string option" where
  \<comment> \<open>the outer loop over \<^verbatim>\<open>v.items()\<close>\<close>
  "validate_edge_items ns [] = None"
| "validate_edge_items ns ((source, target) # rest) =
     (if source \<notin> set ns then Some (''Edge source '' @ quoted source @ '' not in nodes list'')
      else (case target of
              EdgeStr t \<Rightarrow>
                if t \<notin> set ns then Some (''Edge target '' @ quoted t @ '' not in nodes list'')
                else validate_edge_items ns rest
            | EdgeDict m \<Rightarrow>
                (case validate_targets ns m of
                   Some msg \<Rightarrow> Some msg
                 | None \<Rightarrow> validate_edge_items ns rest)))"

definition validate_edges ::
  "(string \<times> edge_config) list \<Rightarrow> string list option
     \<Rightarrow> string + (string \<times> edge_config) list" where
  "validate_edges v values_nodes =
     (case values_nodes of
        None \<Rightarrow> Inr v
      | Some ns \<Rightarrow> (case validate_edge_items ns v of Some msg \<Rightarrow> Inl msg | None \<Rightarrow> Inr v))"

text \<open>
  Construction of a \<^verbatim>\<open>GraphDefinition\<close> from well-typed fields. The model class runs the
  validators in the order of the field declarations (\<^verbatim>\<open>nodes\<close>, \<^verbatim>\<open>edges\<close>,
  \<^verbatim>\<open>start_node\<close>), collects the failure of each as a pair of field name and message,
  and raises one validation error holding them when there is any.
\<close>

definition GraphDefinition_init ::
  "string list \<Rightarrow> (string \<times> edge_config) list \<Rightarrow> string
     \<Rightarrow> (string \<times> string) list + GraphDefinition" where
  "GraphDefinition_init ns es sn =
     (let errs =
            (case validate_edges es (Some ns) of Inl msg \<Rightarrow> [(''edges'', msg)] | Inr _ \<Rightarrow> []) @
            (case validate_start_node sn (Some ns) of Inl msg \<Rightarrow> [(''start_node'', msg)] | Inr _ \<Rightarrow> [])
      in if errs = [] then Inr \<lparr>nodes = ns, edges = es, start_node = sn\<rparr> else Inl errs)"

section \<open>Run submission\<close>

datatype http_error = HTTPException nat string

text \<open>
  \<^verbatim>\<open>run_graph\<close>: the identifier that \<^verbatim>\<open>uuid.uuid4()\<close> draws is the argument \<open>new_id\<close>.
  The result holds the response (run identifier and the text \<^verbatim>\<open>Submitted\<close>), the
  updated run store and the run identifiers handed to \<^verbatim>\<open>background_tasks.add_task\<close>.
\<close>

definition run_graph ::
  "(string \<rightharpoonup> GraphDefinition) \<Rightarrow> (string \<rightharpoonup> step) \<Rightarrow> (string \<rightharpoonup> WorkflowRun)
     \<Rightarrow> string \<Rightarrow> string \<Rightarrow> py_dict
     \<Rightarrow> http_error + ((string \<times> string) \<times> (string \<rightharpoonup> WorkflowRun) \<times> string list)" where
  "run_graph graphs_db tool_registry runs_db new_id request_graph_id initial_state =
     (case graphs_db request_graph_id of
        None \<Rightarrow> Inl (HTTPException 404 (''Graph '' @ quoted request_graph_id @ '' not found''))
      | Some graph \<Rightarrow>
          (let unregistered_nodes = filter (\<lambda>node. tool_registry node = None) (nodes graph)
           in if unregistered_nodes \<noteq> [] then
                Inl (HTTPException 400
                      (''The following nodes are not registered: '' @ repr_str_list unregistered_nodes))
              else
                Inr ((new_id, ''Submitted''),
                     runs_db(new_id \<mapsto>
                       \<lparr>run_id = new_id, graph_id = request_graph_id, status = PENDING,
                        state = \<lparr>data = initial_state, history = []\<rparr>,
                        current_node = None, error = None\<rparr>),
                     [new_id])))"

section \<open>The preregistered steps and the preloaded graph\<close>

subsection \<open>The Python operations the steps use\<close>

fun split_on :: "char \<Rightarrow> string \<Rightarrow> string list" where
  \<comment> \<open>\<^verbatim>\<open>s.split(sep)\<close> for a separator of one character\<close>
  "split_on sep [] = [[]]"
| "split_on sep (c # cs) =
     (if c = sep then [] # split_on sep cs
      else (case split_on sep cs of [] \<Rightarrow> [[c]] | l # ls \<Rightarrow> (c # l) # ls))"

fun str_contains :: "string \<Rightarrow> string \<Rightarrow> bool" where
  \<comment> \<open>\<^verbatim>\<open>sub in s\<close>\<close>
  "str_contains sub [] = (sub = [])"
| "str_contains sub (c # cs) = (take (length sub) (c # cs) = sub \<or> str_contains sub cs)"

definition py_len :: "pyval \<Rightarrow> py_exn + int" where
  "py_len v = (case v of
      PStr s \<Rightarrow> Inr (int (length s))
    | PList xs \<Rightarrow> Inr (int (length xs))
    | PDict kvs \<Rightarrow> Inr (int (length kvs))
    | _ \<Rightarrow> Inl (TypeError (''object of type '' @ quoted (type_name v) @ '' has no len()'')))"

definition py_truthy :: "pyval \<Rightarrow> bool" where
  "py_truthy v = (case v of
      PNone \<Rightarrow> False
    | PBool b \<Rightarrow> b
    | PInt i \<Rightarrow> i \<noteq> 0
    | PStr s \<Rightarrow> s \<noteq> []
    | PList xs \<Rightarrow> xs \<noteq> []
    | PDict kvs \<Rightarrow> kvs \<noteq> [])"

definition py_cmp_int :: "string \<Rightarrow> (int \<Rightarrow> int \<Rightarrow> bool) \<Rightarrow> pyval \<Rightarrow> int \<Rightarrow> py_exn + bool" where
  \<comment> \<open>an ordering comparison of a value with an int literal; \<open>opname\<close> is the operator's text\<close>
  "py_cmp_int opname cmp v n = (case v of
      PInt i \<Rightarrow> Inr (cmp i n)
    | PBool b \<Rightarrow> Inr (cmp (if b then 1 else 0) n)
    | _ \<Rightarrow> Inl (TypeError (quoted opname @ '' not supported between instances of '' @
                          quoted (type_name v) @ '' and '' @ quoted ''int'')))"

definition py_add_int :: "pyval \<Rightarrow> int \<Rightarrow> py_exn + pyval" where
  \<comment> \<open>\<^verbatim>\<open>v + n\<close> for an int literal \<open>n\<close>\<close>
  "py_add_int v n = (case v of
      PInt i \<Rightarrow> Inr (PInt (i + n))
    | PBool b \<Rightarrow> Inr (PInt ((if b then 1 else 0) + n))
    | PStr _ \<Rightarrow> Inl (TypeError (''can only concatenate str (not '' @ [CHR 0x22] @ ''int'' @
                               [CHR 0x22] @ '') to str''))
    | PList _ \<Rightarrow> Inl (TypeError (''can only concatenate list (not '' @ [CHR 0x22] @ ''int'' @
                                [CHR 0x22] @ '') to list''))
    | _ \<Rightarrow> Inl (TypeError (''unsupported operand type(s) for +: '' @ quoted (type_name v) @
                          '' and '' @ quoted ''int'')))"

subsection \<open>The steps\<close>

definition node_extract_functions :: step where
  "node_extract_functions st =
     (case dict_get st ''code'' (PStr '''') of
        PStr code \<Rightarrow>
          (dict_set st ''functions''
             (PList (map PStr (filter (str_contains ''def '') (split_on (CHR 0x0A) code)))),
           Inr PNone)
      | v \<Rightarrow> (st, Inl (AttributeError (quoted (type_name v) @ '' object has no attribute '' @
                                       quoted ''split''))))"

definition node_check_complexity :: step where
  "node_check_complexity st =
     (case py_len (dict_get st ''functions'' (PList [])) of
        Inl e \<Rightarrow> (st, Inl e)
      | Inr n \<Rightarrow> (dict_set st ''complexity_score'' (PInt (n * 2)), Inr PNone))"

definition node_detect_issues :: step where
  "node_detect_issues st =
     (let complexity = dict_get st ''complexity_score'' (PInt 0)
      in case py_cmp_int ''>'' (>) complexity 5 of
           Inl e \<Rightarrow> (st, Inl e)
         | Inr b \<Rightarrow>
             (dict_set st ''issues'' (if b then PList [PStr ''Line 10: Too long''] else PList []),
              Inr PNone))"

definition node_suggest_improvements :: step where
  "node_suggest_improvements st =
     (if py_truthy (dict_get st ''issues'' PNone) then
        (let st1 = dict_set st ''suggestions'' (PStr ''Refactor logic to reduce complexity'')
         in case py_add_int (dict_get st1 ''quality_score'' (PInt 0)) 20 of
              Inl e \<Rightarrow> (st1, Inl e)
            | Inr q \<Rightarrow> (dict_set st1 ''quality_score'' q, Inr PNone))
      else
        (dict_set (dict_set st ''suggestions'' (PStr ''Code looks good!''))
           ''quality_score'' (PInt 100),
         Inr PNone))"

definition node_quality_gate :: step where
  "node_quality_gate st =
     (let score = dict_get st ''quality_score'' (PInt 0)
      in case map_of st ''history'' of
           None \<Rightarrow> (st, Inl (KeyError ''history''))
         | Some (PList h) \<Rightarrow>
             (let st1 = dict_set st ''history''
                          (PList (h @ [PStr (''Quality Gate: score='' @ py_str score)]))
              in case py_cmp_int ''>='' (\<ge>) score 80 of
                   Inl e \<Rightarrow> (st1, Inl e)
                 | Inr b \<Rightarrow> (st1, Inr (PStr (if b then ''pass'' else ''retry''))))
         | Some v \<Rightarrow> (st, Inl (AttributeError (quoted (type_name v) @ '' object has no attribute '' @
                                              quoted ''append''))))"

subsection \<open>The module's engine and the graph loaded at startup\<close>

definition engine :: WorkflowEngine where
  "engine =
     register_tool (register_tool (register_tool (register_tool (register_tool
       (WorkflowEngine_init Map.empty)
       ''extract_functions'' node_extract_functions)
       ''check_complexity'' node_check_complexity)
       ''detect_issues'' node_detect_issues)
       ''suggest_improvements'' node_suggest_improvements)
       ''quality_gate'' node_quality_gate"

definition tool_registry :: "string \<rightharpoonup> step" where
  "tool_registry = registry engine"

definition default_graph_id :: string where
  "default_graph_id = ''code-review-agent''"

definition lifespan_graphs_db :: "string \<rightharpoonup> GraphDefinition" where
  \<comment> \<open>\<^verbatim>\<open>graphs_db\<close> after the startup part of \<^verbatim>\<open>lifespan\<close>\<close>
  "lifespan_graphs_db =
     (case GraphDefinition_init
             [''extract_functions'', ''check_complexity'', ''detect_issues'',
              ''suggest_improvements'', ''quality_gate'']
             [(''extract_functions'', EdgeStr ''check_complexity''),
              (''check_complexity'', EdgeStr ''detect_issues''),
              (''detect_issues'', EdgeStr ''suggest_improvements''),
              (''suggest_improvements'', EdgeStr ''quality_gate''),
              (''quality_gate'', EdgeDict [(''retry'', Some ''detect_issues''), (''pass'', None)])]
             ''extract_functions'' of
        Inr graph \<Rightarrow> [default_graph_id \<mapsto> graph]
      | Inl errs \<Rightarrow> Map.empty)"

definition three_defs :: string where
  \<comment> \<open>the code text of the end-to-end scenarios: three function definitions\<close>
  "three_defs =
     ''def a():'' @ [CHR 0x0A] @ ''  pass'' @ [CHR 0x0A] @
     ''def b():'' @ [CHR 0x0A] @ ''  pass'' @ [CHR 0x0A] @
     ''def c():'' @ [CHR 0x0A] @ ''  pass''"

definition code_review_graph :: GraphDefinition where
  \<comment> \<open>the value that the construction in \<^verbatim>\<open>lifespan\<close> yields\<close>
  "code_review_graph =
     \<lparr>nodes = [''extract_functions'', ''check_complexity'', ''detect_issues'',
               ''suggest_improvements'', ''quality_gate''],
      edges = [(''extract_functions'', EdgeStr ''check_complexity''),
               (''check_complexity'', EdgeStr ''detect_issues''),
               (''detect_issues'', EdgeStr ''suggest_improvements''),
               (''suggest_improvements'', EdgeStr ''quality_gate''),
               (''quality_gate'', EdgeDict [(''retry'', Some ''detect_issues''), (''pass'', None)])],
      start_node = ''extract_functions''\<rparr>"

section \<open>Small engines and graphs used as instances\<close>

definition tick :: step where
  \<comment> \<open>a step that leaves the data alone and returns nothing\<close>
  "tick d = (d, Inr PNone)"

definition tick_engine :: WorkflowEngine where
  "tick_engine = register_tool (register_tool (WorkflowEngine_init Map.empty) ''a'' tick) ''b'' tick"

definition ring_graph :: GraphDefinition where
  \<comment> \<open>two nodes that follow each other for ever\<close>
  "ring_graph =
     \<lparr>nodes = [''a'', ''b''],
      edges = [(''a'', EdgeStr ''b''), (''b'', EdgeDict [(''next'', Some ''a'')])],
      start_node = ''a''\<rparr>"

definition gate_graph :: GraphDefinition where
  \<comment> \<open>one node whose conditional edge knows the outcome \<^verbatim>\<open>done\<close> only\<close>
  "gate_graph = \<lparr>nodes = [''a''], edges = [(''a'', EdgeDict [(''done'', None)])], start_node = ''a''\<rparr>"

definition bare_graph :: GraphDefinition where
  \<comment> \<open>one node whose conditional edge is the empty dictionary\<close>
  "bare_graph = \<lparr>nodes = [''a''], edges = [(''a'', EdgeDict [])], start_node = ''a''\<rparr>"

definition empty_state :: WorkflowState where
  "empty_state = \<lparr>data = [], history = []\<rparr>"

text \<open>
  The condition under which the specification says that constructing a graph fails:
  the start node, an edge source, or an edge destination other than the terminal marker
  is not among the nodes.
\<close>

definition spec_graph_invalid ::
  "string list \<Rightarrow> (string \<times> edge_config) list \<Rightarrow> string \<Rightarrow> bool" where
  "spec_graph_invalid ns es sn \<longleftrightarrow>
     sn \<notin> set ns \<or>
     (\<exists>(source, target)\<in>set es.
        source \<notin> set ns \<or>
        (case target of
           EdgeStr t \<Rightarrow> t \<notin> set ns
         | EdgeDict m \<Rightarrow>
             (\<exists>(outcome, dest)\<in>set m. case dest of None \<Rightarrow> False | Some d \<Rightarrow> d \<notin> set ns)))"

section \<open>The end-to-end scenarios\<close>

definition unseeded_state :: WorkflowState where
  \<comment> \<open>initial data with the code text only\<close>
  "unseeded_state = \<lparr>data = [(''code'', PStr three_defs)], history = []\<rparr>"


definition pending_run :: "py_dict \<Rightarrow> WorkflowRun" where
  \<comment> \<open>the run that \<^verbatim>\<open>run_graph\<close> stores for the preloaded graph under the identifier \<^verbatim>\<open>run-1\<close>\<close>
  "pending_run d =
     \<lparr>run_id = ''run-1'', graph_id = ''code-review-agent'', status = PENDING,
      state = \<lparr>data = d, history = []\<rparr>, current_node = None, error = None\<rparr>"

definition ring_run :: WorkflowRun where
  "ring_run =
     \<lparr>run_id = ''r'', graph_id = ''g'', status = PENDING, state = empty_state,
      current_node = None, error = None\<rparr>"

definition blank_engine :: WorkflowEngine where
  \<comment> \<open>an engine in which the empty name is registered too\<close>
  "blank_engine = register_tool (register_tool (WorkflowEngine_init Map.empty) ''a'' tick) [] tick"

definition blank_graph :: GraphDefinition where
  \<comment> \<open>a cycle of two nodes, one of which has the empty name\<close>
  "blank_graph =
     \<lparr>nodes = [''a'', []],
      edges = [(''a'', EdgeStr []), ([], EdgeStr ''a'')],
      start_node = ''a''\<rparr>"

section \<open>The traversal loop, one iteration at a time\<close>

lemma execute_node_history:
  assumes "execute_node eng n st = (st1, r)"
  shows "\<exists>es. history st1 = history st @ es \<and> ''Workflow Completed.'' \<notin> set es"
  using assms
  by (auto simp: execute_node_def Let_def split: option.splits prod.splits sum.splits)

lemma loop_falsy:
  "cur = None \<or> cur = Some [] \<Longrightarrow> run_workflow_loop eng graph cur steps st = (st, None)"
  by (auto simp: run_workflow_loop.simps)

lemma loop_cap:
  "node \<noteq> [] \<Longrightarrow> max_steps eng < steps + 1 \<Longrightarrow>
   run_workflow_loop eng graph (Some node) steps st =
     (st\<lparr>history := history st @
          [''Max steps ('' @ str_int (max_steps eng) @ '') reached. Terminating.'']\<rparr>, None)"
  by (simp add: run_workflow_loop.simps)

lemma loop_raise:
  "node \<noteq> [] \<Longrightarrow> steps + 1 \<le> max_steps eng \<Longrightarrow> execute_node eng node st = (st1, Inl e) \<Longrightarrow>
   run_workflow_loop eng graph (Some node) steps st = (st1, Some e)"
  by (simp add: run_workflow_loop.simps)

lemma loop_no_edge:
  "node \<noteq> [] \<Longrightarrow> steps + 1 \<le> max_steps eng \<Longrightarrow> execute_node eng node st = (st1, Inr outcome) \<Longrightarrow>
   map_of (edges graph) node = None \<or> map_of (edges graph) node = Some (EdgeStr []) \<or>
   map_of (edges graph) node = Some (EdgeDict []) \<Longrightarrow>
   run_workflow_loop eng graph (Some node) steps st = (st1, None)"
  by (auto simp: run_workflow_loop.simps)

lemma loop_edge_str:
  "node \<noteq> [] \<Longrightarrow> steps + 1 \<le> max_steps eng \<Longrightarrow> execute_node eng node st = (st1, Inr outcome) \<Longrightarrow>
   map_of (edges graph) node = Some (EdgeStr target) \<Longrightarrow> target \<noteq> [] \<Longrightarrow>
   run_workflow_loop eng graph (Some node) steps st =
     run_workflow_loop eng graph (Some target) (steps + 1) st1"
  by (simp add: run_workflow_loop.simps [of eng graph "Some node"])

lemma loop_edge_dict_missing:
  "node \<noteq> [] \<Longrightarrow> steps + 1 \<le> max_steps eng \<Longrightarrow> execute_node eng node st = (st1, Inr outcome) \<Longrightarrow>
   map_of (edges graph) node = Some (EdgeDict m) \<Longrightarrow> m \<noteq> [] \<Longrightarrow> map_of m outcome = None \<Longrightarrow>
   run_workflow_loop eng graph (Some node) steps st =
     (st1\<lparr>history := history st1 @
        [''Warning: Outcome '' @ quoted outcome @
         '' not defined in edges for node. Ending workflow.'']\<rparr>, None)"
  by (simp add: run_workflow_loop.simps [of eng graph "Some node"])

lemma loop_edge_dict_found:
  "node \<noteq> [] \<Longrightarrow> steps + 1 \<le> max_steps eng \<Longrightarrow> execute_node eng node st = (st1, Inr outcome) \<Longrightarrow>
   map_of (edges graph) node = Some (EdgeDict m) \<Longrightarrow> m \<noteq> [] \<Longrightarrow> map_of m outcome = Some dest \<Longrightarrow>
   run_workflow_loop eng graph (Some node) steps st =
     run_workflow_loop eng graph dest (steps + 1) st1"
  by (simp add: run_workflow_loop.simps [of eng graph "Some node"])

lemma run_workflow_loop_history:
  "run_workflow_loop eng graph cur steps st = (st', r) \<Longrightarrow>
     \<exists>es. history st' = history st @ es \<and> ''Workflow Completed.'' \<notin> set es"
proof (induction "nat (max_steps eng - steps)" arbitrary: cur steps st rule: less_induct)
  case less
  note run = less.prems
  show ?case
  proof (cases "cur = None \<or> cur = Some []")
    case True
    with run show ?thesis by (simp add: loop_falsy)
  next
    case False
    then obtain node where cur: "cur = Some node" and node: "node \<noteq> []" by auto
    show ?thesis
    proof (cases "max_steps eng < steps + 1")
      case True
      with run cur node show ?thesis by (auto simp: loop_cap)
    next
      case False
      then have le: "steps + 1 \<le> max_steps eng" by simp
      then have dec: "nat (max_steps eng - (steps + 1)) < nat (max_steps eng - steps)" by simp
      obtain st1 res where ex: "execute_node eng node st = (st1, res)"
        by (cases "execute_node eng node st")
      from execute_node_history [OF ex] obtain es1 where
        es1: "history st1 = history st @ es1" "''Workflow Completed.'' \<notin> set es1" by blast
      have next_ok: "\<exists>es. history st' = history st @ es \<and> ''Workflow Completed.'' \<notin> set es"
        if "run_workflow_loop eng graph c (steps + 1) st1 = (st', r)" for c
      proof -
        from less.hyps [OF dec that] obtain es2 where
          "history st' = history st1 @ es2" "''Workflow Completed.'' \<notin> set es2" by blast
        with es1 show ?thesis by auto
      qed
      show ?thesis
      proof (cases res)
        case (Inl e)
        with run cur node le ex es1 show ?thesis by (auto simp: loop_raise)
      next
        case (Inr outcome)
        note ex' = ex [unfolded Inr]
        consider
            (stop) "map_of (edges graph) node = None \<or> map_of (edges graph) node = Some (EdgeStr [])
                     \<or> map_of (edges graph) node = Some (EdgeDict [])"
          | (str) target where "map_of (edges graph) node = Some (EdgeStr target)" "target \<noteq> []"
          | (dict) m where "map_of (edges graph) node = Some (EdgeDict m)" "m \<noteq> []"
          by (cases "map_of (edges graph) node") (auto, metis edge_config.exhaust)
        then show ?thesis
        proof cases
          case stop
          from run show ?thesis
            unfolding cur loop_no_edge [OF node le ex' stop] using es1 by auto
        next
          case str
          from run show ?thesis
            unfolding cur loop_edge_str [OF node le ex' str] by (rule next_ok)
        next
          case dict
          show ?thesis
          proof (cases "map_of m outcome")
            case None
            from run show ?thesis
              unfolding cur loop_edge_dict_missing [OF node le ex' dict None] using es1 by auto
          next
            case (Some dest)
            from run show ?thesis
              unfolding cur loop_edge_dict_found [OF node le ex' dict Some] by (rule next_ok)
          qed
        qed
      qed
    qed
  qed
qed

text \<open>
  Claim C1. Whatever the graph and the initial state: when \<^verbatim>\<open>run_workflow\<close> returns
  normally (\<open>r = None\<close>: the loop ended at a terminal or falsy successor, at a node without
  edge, at an outcome without entry, or at the step cap), the history is the initial
  history, then the entries \<open>es\<close> of the loop, none of which is \<^verbatim>\<open>Workflow Completed.\<close>,
  then that entry once, as the last one. When an exception leaves \<^verbatim>\<open>run_workflow\<close>
  (\<open>r = Some e\<close>), the entries added hold no \<^verbatim>\<open>Workflow Completed.\<close>.
\<close>

theorem run_workflow_completed_entry:
  "run_workflow eng graph st = (st', r) \<Longrightarrow>
     \<exists>es. ''Workflow Completed.'' \<notin> set es \<and>
          (case r of
             None \<Rightarrow> history st' = history st @ es @ [''Workflow Completed.'']
           | Some e \<Rightarrow> history st' = history st @ es)"
proof -
  assume run: "run_workflow eng graph st = (st', r)"
  obtain st1 r1 where loop: "run_workflow_loop eng graph (Some (start_node graph)) 0 st = (st1, r1)"
    by (cases "run_workflow_loop eng graph (Some (start_node graph)) 0 st")
  from run_workflow_loop_history [OF loop] obtain es where
    es: "history st1 = history st @ es" "''Workflow Completed.'' \<notin> set es" by blast
  from run loop es show ?thesis
    by (cases r1) (auto simp: run_workflow_def)
qed


lemma execute_node_ok:
  "registry eng n = Some f \<Longrightarrow> f (data st) = (d, Inr res) \<Longrightarrow>
   execute_node eng n st =
     (st\<lparr>history := history st @ [''Executing: '' @ n], data := d\<rparr>,
      Inr (case res of PStr s \<Rightarrow> s | _ \<Rightarrow> ''next''))"
  by (simp add: execute_node_def)

lemma endless_loop:
  assumes names: "[] \<notin> N"
    and steps_ok: "\<forall>n\<in>N. \<exists>f. registry eng n = Some f \<and> (\<forall>d. \<exists>d' res. f d = (d', Inr res))"
    and cyc: "\<forall>n\<in>N.
        case map_of (edges g) n of
          None \<Rightarrow> False
        | Some (EdgeStr t) \<Rightarrow> t \<in> N
        | Some (EdgeDict m) \<Rightarrow>
            (\<forall>st st1 out. execute_node eng n st = (st1, Inr out) \<longrightarrow>
               (\<exists>t. map_of m out = Some (Some t) \<and> t \<in> N))"
  shows "node \<in> N \<Longrightarrow> steps \<le> max_steps eng \<Longrightarrow>
     \<exists>path st'. length path = nat (max_steps eng - steps) \<and> set path \<subseteq> N \<and>
        run_workflow_loop eng g (Some node) steps st = (st', None) \<and>
        history st' = history st @ map (\<lambda>n. ''Executing: '' @ n) path @
          [''Max steps ('' @ str_int (max_steps eng) @ '') reached. Terminating.'']"
proof (induction "nat (max_steps eng - steps)" arbitrary: node steps st rule: less_induct)
  case less
  from less.prems names have node: "node \<noteq> []" by auto
  show ?case
  proof (cases "steps = max_steps eng")
    case True
    then have "max_steps eng < steps + 1" by simp
    from loop_cap [OF node this, of g st] True show ?thesis by simp
  next
    case False
    with less.prems have le: "steps + 1 \<le> max_steps eng" by simp
    then have dec: "nat (max_steps eng - (steps + 1)) < nat (max_steps eng - steps)" by simp
    from steps_ok less.prems(1) obtain f where f: "registry eng node = Some f"
      and total: "\<forall>d. \<exists>d' res. f d = (d', Inr res)" by blast
    from total obtain d res where fd: "f (data st) = (d, Inr res)" by blast
    define st1 where "st1 = st\<lparr>history := history st @ [''Executing: '' @ node], data := d\<rparr>"
    define out where "out = (case res of PStr s \<Rightarrow> s | _ \<Rightarrow> ''next'')"
    have ex: "execute_node eng node st = (st1, Inr out)"
      unfolding st1_def out_def by (rule execute_node_ok [OF f fd])
    have h1: "history st1 = history st @ [''Executing: '' @ node]" by (simp add: st1_def)
    have "\<exists>t. t \<in> N \<and>
            run_workflow_loop eng g (Some node) steps st = run_workflow_loop eng g (Some t) (steps + 1) st1"
    proof (cases "map_of (edges g) node")
      case None
      with cyc less.prems(1) show ?thesis by force
    next
      case (Some cfg)
      show ?thesis
      proof (cases cfg)
        case (EdgeStr t)
        with Some cyc less.prems(1) have t: "t \<in> N" by force
        with names have "t \<noteq> []" by auto
        from loop_edge_str [OF node le ex Some [unfolded EdgeStr] this] t show ?thesis by blast
      next
        case (EdgeDict m)
        with Some cyc less.prems(1) ex obtain t where
          t: "map_of m out = Some (Some t)" "t \<in> N" by force
        then have "m \<noteq> []" by auto
        from loop_edge_dict_found [OF node le ex Some [unfolded EdgeDict] this t(1)] t(2)
        show ?thesis by blast
      qed
    qed
    then obtain t where t: "t \<in> N"
      and step: "run_workflow_loop eng g (Some node) steps st =
                 run_workflow_loop eng g (Some t) (steps + 1) st1" by blast
    from le have le': "steps + 1 \<le> max_steps eng" .
    from less.hyps [OF dec t le', of st1] obtain path st' where
      p: "length path = nat (max_steps eng - (steps + 1))" "set path \<subseteq> N"
         "run_workflow_loop eng g (Some t) (steps + 1) st1 = (st', None)"
         "history st' = history st1 @ map (\<lambda>n. ''Executing: '' @ n) path @
            [''Max steps ('' @ str_int (max_steps eng) @ '') reached. Terminating.'']"
      by blast
    have "length (node # path) = nat (max_steps eng - steps)" using p(1) le by simp
    moreover have "set (node # path) \<subseteq> N" using p(2) less.prems(1) by simp
    moreover have "run_workflow_loop eng g (Some node) steps st = (st', None)" using step p(3) by simp
    moreover have "history st' = history st @ map (\<lambda>n. ''Executing: '' @ n) (node # path) @
            [''Max steps ('' @ str_int (max_steps eng) @ '') reached. Terminating.'']"
      using p(4) h1 by simp
    ultimately show ?thesis by blast
  qed
qed

text \<open>
  Claim C2, as the code has it. Let \<open>N\<close> be a set of non-empty node names that holds the
  start node, such that every node of \<open>N\<close> is registered with a step that never raises
  and has an edge that leads on to a node of \<open>N\<close>: an unconditional successor, or a
  conditional edge that maps every outcome the node can return to a successor. Nodes of
  the graph outside \<open>N\<close> are not constrained. Then the background task executes
  exactly \<open>max_steps\<close> nodes (the list \<open>path\<close>), the history gains one
  \<^verbatim>\<open>Executing\<close> entry per node, then the max-steps message and
  \<^verbatim>\<open>Workflow Completed.\<close>, and the run is stored with status \<open>COMPLETED\<close>.
\<close>

theorem cyclic_graph_truncated:
  assumes run: "runs_db rid = Some run"
    and graph: "graphs_db (graph_id run) = Some g"
    and cap: "0 \<le> max_steps eng"
    and start: "start_node g \<in> N"
    and names: "[] \<notin> N"
    and steps_ok: "\<forall>n\<in>N. \<exists>f. registry eng n = Some f \<and> (\<forall>d. \<exists>d' res. f d = (d', Inr res))"
    and cyc: "\<forall>n\<in>N.
        case map_of (edges g) n of
          None \<Rightarrow> False
        | Some (EdgeStr t) \<Rightarrow> t \<in> N
        | Some (EdgeDict m) \<Rightarrow>
            (\<forall>st st1 out. execute_node eng n st = (st1, Inr out) \<longrightarrow>
               (\<exists>t. map_of m out = Some (Some t) \<and> t \<in> N))"
  shows "\<exists>path st'.
      length path = nat (max_steps eng) \<and> set path \<subseteq> N \<and>
      history st' = history (state run) @ map (\<lambda>n. ''Executing: '' @ n) path @
        [''Max steps ('' @ str_int (max_steps eng) @ '') reached. Terminating.'',
         ''Workflow Completed.''] \<and>
      run_workflow_background eng graphs_db runs_db rid =
        Inr (runs_db(rid \<mapsto> run\<lparr>state := st', status := COMPLETED\<rparr>))"
proof -
  from endless_loop [OF names steps_ok cyc start, of 0 "state run"] cap
  obtain path st1 where
    p: "length path = nat (max_steps eng)" "set path \<subseteq> N"
       "run_workflow_loop eng g (Some (start_node g)) 0 (state run) = (st1, None)"
       "history st1 = history (state run) @ map (\<lambda>n. ''Executing: '' @ n) path @
          [''Max steps ('' @ str_int (max_steps eng) @ '') reached. Terminating.'']"
    by auto
  define st' where "st' = st1\<lparr>history := history st1 @ [''Workflow Completed.'']\<rparr>"
  have rw: "run_workflow eng g (state run) = (st', None)"
    by (simp add: run_workflow_def p(3) st'_def)
  have "run_workflow_background eng graphs_db runs_db rid =
        Inr (runs_db(rid \<mapsto> run\<lparr>state := st', status := COMPLETED\<rparr>))"
    by (simp add: run_workflow_background_def run graph rw)
  moreover have "history st' = history (state run) @ map (\<lambda>n. ''Executing: '' @ n) path @
        [''Max steps ('' @ str_int (max_steps eng) @ '') reached. Terminating.'',
         ''Workflow Completed.'']"
    by (simp add: st'_def p(4))
  ultimately show ?thesis using p(1,2) by blast
qed

section \<open>Evaluations of concrete runs\<close>

lemma fixture_graph: "lifespan_graphs_db default_graph_id = Some code_review_graph"
  by code_simp

lemma str_int_50: "str_int 50 = ''50''"
  by code_simp

lemma repr_history: "repr_str ''history'' = quoted ''history''"
  by code_simp

lemma gate_run:
  "run_workflow tick_engine gate_graph empty_state =
     (\<lparr>data = [],
       history = [''Executing: a'',
                  ''Warning: Outcome '' @ quoted ''next'' @
                  '' not defined in edges for node. Ending workflow.'',
                  ''Workflow Completed.'']\<rparr>, None)"
  by code_simp

lemma bare_run:
  "run_workflow tick_engine bare_graph empty_state =
     (\<lparr>data = [], history = [''Executing: a'', ''Workflow Completed.'']\<rparr>, None)"
  by code_simp

lemma unseeded_run:
  "run_workflow engine code_review_graph unseeded_state =
     (\<lparr>data =
         [(''code'', PStr three_defs),
          (''functions'', PList [PStr ''def a():'', PStr ''def b():'', PStr ''def c():'']),
          (''complexity_score'', PInt 6),
          (''issues'', PList [PStr ''Line 10: Too long'']),
          (''suggestions'', PStr ''Refactor logic to reduce complexity''),
          (''quality_score'', PInt 20)],
       history =
         [''Executing: extract_functions'', ''Executing: check_complexity'',
          ''Executing: detect_issues'', ''Executing: suggest_improvements'',
          ''Executing: quality_gate'',
          ''Error in quality_gate: '' @ quoted ''history'']\<rparr>,
      Some (KeyError ''history''))"
  by code_simp


theorem run_workflow_completed_entry_witness:
  "snd (run_workflow tick_engine gate_graph empty_state) = None \<and>
   (\<exists>es. ''Workflow Completed.'' \<notin> set es \<and>
      history (fst (run_workflow tick_engine gate_graph empty_state)) =
        history empty_state @ es @ [''Workflow Completed.'']) \<and>
   snd (run_workflow engine code_review_graph unseeded_state) = Some (KeyError ''history'') \<and>
   (\<exists>es. ''Workflow Completed.'' \<notin> set es \<and>
      history (fst (run_workflow engine code_review_graph unseeded_state)) =
        history unseeded_state @ es)"
  using run_workflow_completed_entry [OF gate_run] run_workflow_completed_entry [OF unseeded_run]
  by (simp add: gate_run unseeded_run)

lemma tick_registry:
  "registry tick_engine ''a'' = Some tick" "registry tick_engine ''b'' = Some tick"
  by (simp_all add: tick_engine_def register_tool_def WorkflowEngine_init_def)

lemma tick_max_steps: "max_steps tick_engine = 50"
  by (simp add: tick_engine_def register_tool_def WorkflowEngine_init_def)

theorem cyclic_graph_truncated_witness:
  "\<exists>path st'.
      length path = 50 \<and> set path \<subseteq> {''a'', ''b''} \<and>
      history st' = map (\<lambda>n. ''Executing: '' @ n) path @
        [''Max steps (50) reached. Terminating.'', ''Workflow Completed.''] \<and>
      run_workflow_background tick_engine [''g'' \<mapsto> ring_graph] [''r'' \<mapsto> ring_run] ''r'' =
        Inr [''r'' \<mapsto> ring_run\<lparr>state := st', status := COMPLETED\<rparr>]"
proof -
  have run: "[''r'' \<mapsto> ring_run] ''r'' = Some ring_run" by simp
  have graph: "[''g'' \<mapsto> ring_graph] (graph_id ring_run) = Some ring_graph"
    by (simp add: ring_run_def)
  have cap: "0 \<le> max_steps tick_engine" by (simp add: tick_max_steps)
  have start: "start_node ring_graph \<in> set (nodes ring_graph)" by (simp add: ring_graph_def)
  have names: "[] \<notin> set (nodes ring_graph)" by (simp add: ring_graph_def)
  have steps_ok: "\<forall>n\<in>set (nodes ring_graph).
      \<exists>f. registry tick_engine n = Some f \<and> (\<forall>d. \<exists>d' res. f d = (d', Inr res))"
    by (simp add: ring_graph_def tick_registry tick_def)
  have cyc: "\<forall>n\<in>set (nodes ring_graph).
        case map_of (edges ring_graph) n of
          None \<Rightarrow> False
        | Some (EdgeStr t) \<Rightarrow> t \<in> set (nodes ring_graph)
        | Some (EdgeDict m) \<Rightarrow>
            (\<forall>st st1 out. execute_node tick_engine n st = (st1, Inr out) \<longrightarrow>
               (\<exists>t. map_of m out = Some (Some t) \<and> t \<in> set (nodes ring_graph)))"
    by (auto simp: ring_graph_def execute_node_def tick_registry tick_def)
  from cyclic_graph_truncated
         [where runs_db = "[''r'' \<mapsto> ring_run]" and rid = "''r''" and run = ring_run
            and graphs_db = "[''g'' \<mapsto> ring_graph]" and g = ring_graph and eng = tick_engine
            and N = "set (nodes ring_graph)",
          OF run graph cap start names steps_ok cyc]
  show ?thesis
    by (simp add: tick_max_steps str_int_50 ring_graph_def ring_run_def empty_state_def)
qed

lemma blank_loop_run:
  "run_workflow blank_engine blank_graph empty_state =
     (\<lparr>data = [], history = [''Executing: a'', ''Workflow Completed.'']\<rparr>, None)"
  by code_simp

lemma blank_graph_valid:
  "GraphDefinition_init [''a'', []] [(''a'', EdgeStr []), ([], EdgeStr ''a'')] ''a'' = Inr blank_graph"
  by code_simp

text \<open>
  Without the condition on the names the statement fails. The graph \<open>a \<rightarrow> '' \<rightarrow> a\<close>
  passes validation, both names are registered with a step that never raises, and every
  node has an unconditional successor among the nodes. The empty successor is falsy, so
  the run ends after one execution, with no max-steps entry.
\<close>

theorem empty_name_cycle_counterexample:
  "GraphDefinition_init [''a'', []] [(''a'', EdgeStr []), ([], EdgeStr ''a'')] ''a'' = Inr blank_graph \<and>
   registry blank_engine ''a'' = Some tick \<and> registry blank_engine [] = Some tick \<and>
   max_steps blank_engine = 50 \<and>
   map_of (edges blank_graph) ''a'' = Some (EdgeStr []) \<and>
   map_of (edges blank_graph) [] = Some (EdgeStr ''a'') \<and>
   run_workflow blank_engine blank_graph empty_state =
     (\<lparr>data = [], history = [''Executing: a'', ''Workflow Completed.'']\<rparr>, None) \<and>
   ''Max steps (50) reached. Terminating.''
     \<notin> set (history (fst (run_workflow blank_engine blank_graph empty_state)))"
proof -
  have reg: "registry blank_engine ''a'' = Some tick \<and> registry blank_engine [] = Some tick \<and>
             max_steps blank_engine = 50"
    by (simp add: blank_engine_def register_tool_def WorkflowEngine_init_def)
  have edg: "map_of (edges blank_graph) ''a'' = Some (EdgeStr []) \<and>
             map_of (edges blank_graph) [] = Some (EdgeStr ''a'')"
    by (simp add: blank_graph_def)
  from reg edg show ?thesis by (simp add: blank_graph_valid blank_loop_run)
qed



text \<open>
  Claim C3, as the code has it. Take an iteration of the loop that executes \<open>node\<close>
  (a non-empty name below the step cap) with outcome label \<open>outcome\<close>, where the edge of
  \<open>node\<close> is a conditional mapping \<open>m\<close> with at least one entry. If \<open>outcome\<close> is not a
  key of \<open>m\<close>, the loop ends there and the only entry added after the step is
  \<^verbatim>\<open>Warning: Outcome '<outcome>' not defined in edges for node. Ending workflow.\<close>;
  if \<open>outcome\<close> is a key mapped to \<^verbatim>\<open>None\<close>, the loop ends there with no entry added.
\<close>

theorem conditional_edge_exits:
  assumes "node \<noteq> []" and "steps + 1 \<le> max_steps eng"
    and "execute_node eng node st = (st1, Inr outcome)"
    and "map_of (edges graph) node = Some (EdgeDict m)" and "m \<noteq> []"
  shows "(outcome \<notin> fst ` set m \<longrightarrow>
            run_workflow_loop eng graph (Some node) steps st =
              (st1\<lparr>history := history st1 @
                   [''Warning: Outcome '' @ quoted outcome @
                    '' not defined in edges for node. Ending workflow.'']\<rparr>, None)) \<and>
         (map_of m outcome = Some None \<longrightarrow>
            run_workflow_loop eng graph (Some node) steps st = (st1, None))"
proof (intro conjI impI)
  assume "outcome \<notin> fst ` set m"
  then have "map_of m outcome = None" by (simp add: map_of_eq_None_iff)
  from loop_edge_dict_missing [OF assms this]
  show "run_workflow_loop eng graph (Some node) steps st =
          (st1\<lparr>history := history st1 @
               [''Warning: Outcome '' @ quoted outcome @
                '' not defined in edges for node. Ending workflow.'']\<rparr>, None)" .
next
  assume "map_of m outcome = Some None"
  from loop_edge_dict_found [OF assms this]
  show "run_workflow_loop eng graph (Some node) steps st = (st1, None)"
    by (simp add: loop_falsy)
qed

lemma tick_execute_a:
  "execute_node tick_engine ''a'' empty_state =
     (\<lparr>data = [], history = [''Executing: a'']\<rparr>, Inr ''next'')"
  by (simp add: execute_node_def tick_registry tick_def empty_state_def)

theorem conditional_edge_exits_witness:
  "run_workflow_loop tick_engine gate_graph (Some ''a'') 0 empty_state =
     (\<lparr>data = [],
       history = [''Executing: a'',
                  ''Warning: Outcome '' @ quoted ''next'' @
                  '' not defined in edges for node. Ending workflow.'']\<rparr>, None) \<and>
   run_workflow_loop tick_engine
       \<lparr>nodes = [''a''], edges = [(''a'', EdgeDict [(''next'', None)])], start_node = ''a''\<rparr>
       (Some ''a'') 0 empty_state =
     (\<lparr>data = [], history = [''Executing: a'']\<rparr>, None)"
  using conditional_edge_exits
          [where eng = tick_engine and graph = gate_graph and node = "''a''" and steps = 0
             and st = empty_state and m = "[(''done'', None)]", OF _ _ tick_execute_a]
        conditional_edge_exits
          [where eng = tick_engine and node = "''a''" and steps = 0 and st = empty_state
             and graph = "\<lparr>nodes = [''a''], edges = [(''a'', EdgeDict [(''next'', None)])],
                           start_node = ''a''\<rparr>"
             and m = "[(''next'', None)]", OF _ _ tick_execute_a]
  by (simp add: tick_max_steps gate_graph_def)

text \<open>
  The entry that the code writes starts with \<^verbatim>\<open>Warning: \<close>, so the text without that
  prefix is not in the history; and a conditional mapping without entries ends the run
  with no warning, although the outcome is not one of its keys.
\<close>

theorem warning_text_counterexample:
  "history (fst (run_workflow tick_engine gate_graph empty_state)) =
     [''Executing: a'',
      ''Warning: Outcome '' @ quoted ''next'' @ '' not defined in edges for node. Ending workflow.'',
      ''Workflow Completed.''] \<and>
   ''Outcome '' @ quoted ''next'' @ '' not defined in edges for node. Ending workflow.''
     \<notin> set (history (fst (run_workflow tick_engine gate_graph empty_state))) \<and>
   history (fst (run_workflow tick_engine bare_graph empty_state)) =
     [''Executing: a'', ''Workflow Completed.'']"
  by (simp add: gate_run bare_run quoted_def)

lemma validate_targets_fails:
  "validate_targets ns m \<noteq> None \<longleftrightarrow>
     (\<exists>(outcome, dest)\<in>set m. case dest of None \<Rightarrow> False | Some d \<Rightarrow> d \<notin> set ns)"
proof (induction m)
  case Nil
  show ?case by simp
next
  case (Cons p m)
  obtain outcome dest where p: "p = (outcome, dest)" by (cases p)
  show ?case using Cons.IH by (cases dest) (simp_all add: p)
qed

lemma validate_edge_items_fails:
  "validate_edge_items ns es \<noteq> None \<longleftrightarrow>
     (\<exists>(source, target)\<in>set es.
        source \<notin> set ns \<or>
        (case target of
           EdgeStr t \<Rightarrow> t \<notin> set ns
         | EdgeDict m \<Rightarrow>
             (\<exists>(outcome, dest)\<in>set m. case dest of None \<Rightarrow> False | Some d \<Rightarrow> d \<notin> set ns)))"
proof (induction es)
  case Nil
  show ?case by simp
next
  case (Cons p es)
  obtain source target where p: "p = (source, target)" by (cases p)
  show ?case
  proof (cases target)
    case (EdgeStr t)
    with Cons.IH show ?thesis by (simp add: p)
  next
    case (EdgeDict m)
    show ?thesis
    proof (cases "validate_targets ns m")
      case None
      with validate_targets_fails [of ns m]
      have "\<not> (\<exists>(outcome, dest)\<in>set m. case dest of None \<Rightarrow> False | Some d \<Rightarrow> d \<notin> set ns)"
        by simp
      with Cons.IH None show ?thesis by (simp add: p EdgeDict)
    next
      case (Some msg)
      with validate_targets_fails [of ns m]
      have "\<exists>(outcome, dest)\<in>set m. case dest of None \<Rightarrow> False | Some d \<Rightarrow> d \<notin> set ns"
        by simp
      with Some show ?thesis by (simp add: p EdgeDict)
    qed
  qed
qed

lemma spec_graph_invalid_iff:
  "spec_graph_invalid ns es sn \<longleftrightarrow> sn \<notin> set ns \<or> validate_edge_items ns es \<noteq> None"
  unfolding spec_graph_invalid_def validate_edge_items_fails ..

text \<open>
  Claim C4. Constructing a graph fails exactly when the start node is not among the nodes,
  or an edge source is not, or an edge destination other than \<^verbatim>\<open>None\<close> (the successor
  of an unconditional edge, or a value of a conditional mapping) is not. When the start
  node is missing the errors hold the message that names it. In every other case the
  graph is constructed with the three fields as given.
\<close>

theorem graph_construction_fails_iff:
  "case GraphDefinition_init ns es sn of
     Inl errs \<Rightarrow>
       spec_graph_invalid ns es sn \<and>
       (sn \<notin> set ns \<longrightarrow>
          (''start_node'', ''start_node '' @ quoted sn @ '' must be in nodes list'') \<in> set errs)
   | Inr graph \<Rightarrow>
       \<not> spec_graph_invalid ns es sn \<and> graph = \<lparr>nodes = ns, edges = es, start_node = sn\<rparr>"
  by (auto simp: GraphDefinition_init_def validate_edges_def validate_start_node_def
        spec_graph_invalid_iff Let_def split: option.splits sum.splits)

theorem graph_construction_fails_iff_witness:
  "GraphDefinition_init [''a''] [(''a'', EdgeDict [(''x'', None)])] ''b'' =
     Inl [(''start_node'', ''start_node '' @ quoted ''b'' @ '' must be in nodes list'')] \<and>
   spec_graph_invalid [''a''] [(''a'', EdgeDict [(''x'', None)])] ''b'' \<and>
   (\<exists>errs. GraphDefinition_init [''a''] [(''a'', EdgeDict [(''x'', Some ''c'')])] ''a'' = Inl errs) \<and>
   spec_graph_invalid [''a''] [(''a'', EdgeDict [(''x'', Some ''c'')])] ''a'' \<and>
   GraphDefinition_init [''a''] [(''a'', EdgeDict [(''x'', None)])] ''a'' =
     Inr \<lparr>nodes = [''a''], edges = [(''a'', EdgeDict [(''x'', None)])], start_node = ''a''\<rparr> \<and>
   \<not> spec_graph_invalid [''a''] [(''a'', EdgeDict [(''x'', None)])] ''a''"
  using graph_construction_fails_iff [of "[''a'']" "[(''a'', EdgeDict [(''x'', None)])]" "''b''"]
        graph_construction_fails_iff [of "[''a'']" "[(''a'', EdgeDict [(''x'', Some ''c'')])]" "''a''"]
        graph_construction_fails_iff [of "[''a'']" "[(''a'', EdgeDict [(''x'', None)])]" "''a''"]
  by (simp add: GraphDefinition_init_def validate_edges_def validate_start_node_def)

section \<open>Run submission\<close>

text \<open>
  Claim C5. Submitting a run for a graph identifier that is not in the graph store fails
  with status 404. For a stored graph, let \<open>missing\<close> be the names of its \<^verbatim>\<open>nodes\<close> list
  that the registry lacks, in order: when there is one, submission fails with status 400
  and a detail that lists exactly \<open>missing\<close>, and no run is created or scheduled; when
  there is none, a run with status \<open>PENDING\<close>, the given data and an empty history is
  stored under the new identifier, which is handed to the background tasks.
\<close>

theorem run_graph_submission:
  "(graphs_db gid = None \<longrightarrow>
      run_graph graphs_db reg runs_db new_id gid init =
        Inl (HTTPException 404 (''Graph '' @ quoted gid @ '' not found''))) \<and>
   (\<forall>graph. graphs_db gid = Some graph \<longrightarrow>
      (let missing = filter (\<lambda>n. n \<notin> dom reg) (nodes graph)
       in if missing \<noteq> [] then
            run_graph graphs_db reg runs_db new_id gid init =
              Inl (HTTPException 400
                    (''The following nodes are not registered: '' @ repr_str_list missing))
          else
            run_graph graphs_db reg runs_db new_id gid init =
              Inr ((new_id, ''Submitted''),
                   runs_db(new_id \<mapsto>
                     \<lparr>run_id = new_id, graph_id = gid, status = PENDING,
                      state = \<lparr>data = init, history = []\<rparr>,
                      current_node = None, error = None\<rparr>),
                   [new_id])))"
  by (simp add: run_graph_def Let_def domIff)

lemma fixture_graph_lookup: "lifespan_graphs_db ''code-review-agent'' = Some code_review_graph"
  using fixture_graph by (simp add: default_graph_id_def)

lemma fixture_graph_other: "lifespan_graphs_db ''nope'' = None"
  by code_simp

lemma fixture_registered:
  "filter (\<lambda>n. n \<notin> dom tool_registry) (nodes code_review_graph) = []"
  by (simp add: domIff tool_registry_def engine_def register_tool_def WorkflowEngine_init_def
        code_review_graph_def)

lemma ring_unregistered:
  "filter (\<lambda>n. n \<notin> dom tool_registry) (nodes ring_graph) = [''a'', ''b'']"
  by (simp add: domIff tool_registry_def engine_def register_tool_def WorkflowEngine_init_def
        ring_graph_def)

lemma repr_ab: "repr_str_list [''a'', ''b''] = ''['' @ quoted ''a'' @ '', '' @ quoted ''b'' @ '']''"
  by code_simp

theorem run_graph_submission_witness:
  "run_graph lifespan_graphs_db tool_registry Map.empty ''run-1'' ''nope'' [] =
     Inl (HTTPException 404 (''Graph '' @ quoted ''nope'' @ '' not found'')) \<and>
   run_graph [''g'' \<mapsto> ring_graph] tool_registry Map.empty ''run-1'' ''g'' [] =
     Inl (HTTPException 400
           (''The following nodes are not registered: ['' @ quoted ''a'' @ '', '' @
            quoted ''b'' @ '']'')) \<and>
   run_graph lifespan_graphs_db tool_registry Map.empty ''run-1'' ''code-review-agent'' [] =
     Inr ((''run-1'', ''Submitted''), [''run-1'' \<mapsto> pending_run []], [''run-1''])"
  using run_graph_submission [of lifespan_graphs_db "''nope''" tool_registry Map.empty "''run-1''" "[]"]
        run_graph_submission [of "[''g'' \<mapsto> ring_graph]" "''g''" tool_registry Map.empty "''run-1''" "[]"]
        run_graph_submission [of lifespan_graphs_db "''code-review-agent''" tool_registry Map.empty
                                 "''run-1''" "[]"]
  by (simp add: fixture_graph_other fixture_graph_lookup fixture_registered ring_unregistered
        repr_ab pending_run_def)

section \<open>Node execution\<close>

text \<open>
  Claim C6. For a registered node, the state after \<^verbatim>\<open>execute_node\<close> has the entry
  \<^verbatim>\<open>Executing: <name>\<close> added to the history, whether the step returns or raises. When
  the step raises \<open>e\<close>, the entry \<^verbatim>\<open>Error in <name>: <message>\<close> follows it as the
  last one, and \<open>e\<close> itself is what \<^verbatim>\<open>execute_node\<close> raises.
\<close>

theorem execute_node_logs_and_reraises:
  assumes "registry eng node_name = Some func"
  shows "(\<forall>d res. func (data st) = (d, Inr res) \<longrightarrow>
            fst (execute_node eng node_name st) =
              st\<lparr>data := d, history := history st @ [''Executing: '' @ node_name]\<rparr>) \<and>
         (\<forall>d e. func (data st) = (d, Inl e) \<longrightarrow>
            execute_node eng node_name st =
              (st\<lparr>data := d,
                  history := history st @
                    [''Executing: '' @ node_name,
                     ''Error in '' @ node_name @ '': '' @ str_exn e]\<rparr>,
               Inl e))"
  using assms by (simp add: execute_node_def)

lemma engine_registry_gate: "registry engine ''quality_gate'' = Some node_quality_gate"
  by (simp add: engine_def register_tool_def WorkflowEngine_init_def)

lemma gate_without_history: "node_quality_gate [] = ([], Inl (KeyError ''history''))"
  by (simp add: node_quality_gate_def)

lemma gate_with_history:
  "node_quality_gate [(''history'', PList [])] =
     ([(''history'', PList [PStr ''Quality Gate: score=0''])], Inr (PStr ''retry''))"
  by code_simp

theorem execute_node_logs_and_reraises_witness:
  "execute_node engine ''quality_gate'' empty_state =
     (\<lparr>data = [],
       history = [''Executing: quality_gate'',
                  ''Error in quality_gate: '' @ quoted ''history'']\<rparr>,
      Inl (KeyError ''history'')) \<and>
   fst (execute_node engine ''quality_gate'' \<lparr>data = [(''history'', PList [])], history = []\<rparr>) =
     \<lparr>data = [(''history'', PList [PStr ''Quality Gate: score=0''])],
      history = [''Executing: quality_gate'']\<rparr>"
  using execute_node_logs_and_reraises [OF engine_registry_gate, of empty_state]
        execute_node_logs_and_reraises [OF engine_registry_gate,
          of "\<lparr>data = [(''history'', PList [])], history = []\<rparr>"]
  by (simp add: empty_state_def gate_without_history gate_with_history repr_history)

text \<open>
  Claim C7. When the step of a registered node returns \<open>res\<close>, the outcome label is the
  string itself if \<open>res\<close> is a string, and \<^verbatim>\<open>next\<close> for every other value, \<^verbatim>\<open>None\<close>
  included.
\<close>

theorem execute_node_outcome_label:
  assumes "registry eng node_name = Some func" and "func (data st) = (d, Inr res)"
  shows "(\<forall>s. res = PStr s \<longrightarrow> snd (execute_node eng node_name st) = Inr s) \<and>
         ((\<forall>s. res \<noteq> PStr s) \<longrightarrow> snd (execute_node eng node_name st) = Inr ''next'')"
  using assms by (cases res) (simp_all add: execute_node_def)

theorem execute_node_outcome_label_witness:
  "snd (execute_node engine ''quality_gate'' \<lparr>data = [(''history'', PList [])], history = []\<rparr>) =
     Inr ''retry'' \<and>
   snd (execute_node tick_engine ''a'' empty_state) = Inr ''next''"
  using execute_node_outcome_label [OF engine_registry_gate,
          of "\<lparr>data = [(''history'', PList [])], history = []\<rparr>", simplified, OF gate_with_history]
        execute_node_outcome_label [OF tick_registry(1), of empty_state "[]" PNone]
  by (simp add: tick_def empty_state_def)

text \<open>
  Claim C10. For a name that is not in the registry, \<^verbatim>\<open>execute_node\<close> raises the
  not-found \<^verbatim>\<open>ValueError\<close> and returns the state as it was: history and data are the
  same.
\<close>

theorem execute_node_unregistered:
  "registry eng node_name = None \<Longrightarrow>
     execute_node eng node_name st =
       (st, Inl (ValueError (''Node '' @ quoted node_name @ '' not found in registry.'')))"
  by (simp add: execute_node_def)

theorem execute_node_unregistered_witness:
  "registry engine ''missing'' = None \<and>
   execute_node engine ''missing'' empty_state =
     (empty_state, Inl (ValueError (''Node '' @ quoted ''missing'' @ '' not found in registry.'')))"
proof -
  have h: "registry engine ''missing'' = None"
    by (simp add: engine_def register_tool_def WorkflowEngine_init_def)
  from h execute_node_unregistered [OF h, of empty_state] show ?thesis by simp
qed

section \<open>The end-to-end scenarios on the preloaded graph\<close>


text \<open>
  Claim C9. The same submission without the \<^verbatim>\<open>history\<close> key in the data: three lines
  are collected, \<^verbatim>\<open>complexity_score\<close> is 6, \<^verbatim>\<open>issues\<close> is not empty,
  \<^verbatim>\<open>quality_score\<close> is 20, and \<^verbatim>\<open>quality_gate\<close> raises \<^verbatim>\<open>KeyError('history')\<close>. The
  run is stored with status \<open>FAILED\<close> and the error text \<^verbatim>\<open>'history'\<close>.
\<close>

theorem fixture_run_without_history:
  "run_graph lifespan_graphs_db tool_registry Map.empty ''run-1'' ''code-review-agent''
       (data unseeded_state) =
     Inr ((''run-1'', ''Submitted''), [''run-1'' \<mapsto> pending_run (data unseeded_state)], [''run-1'']) \<and>
   run_workflow_background engine lifespan_graphs_db
       [''run-1'' \<mapsto> pending_run (data unseeded_state)] ''run-1'' =
     Inr [''run-1'' \<mapsto>
       \<lparr>run_id = ''run-1'', graph_id = ''code-review-agent'', status = FAILED,
        state =
          \<lparr>data =
             [(''code'', PStr three_defs),
              (''functions'', PList [PStr ''def a():'', PStr ''def b():'', PStr ''def c():'']),
              (''complexity_score'', PInt 6),
              (''issues'', PList [PStr ''Line 10: Too long'']),
              (''suggestions'', PStr ''Refactor logic to reduce complexity''),
              (''quality_score'', PInt 20)],
           history =
             [''Executing: extract_functions'', ''Executing: check_complexity'',
              ''Executing: detect_issues'', ''Executing: suggest_improvements'',
              ''Executing: quality_gate'',
              ''Error in quality_gate: '' @ quoted ''history'',
              ''Workflow failed: '' @ quoted ''history'']\<rparr>,
        current_node = None, error = Some (quoted ''history'')\<rparr>]"
proof -
  have st: "\<lparr>data = data unseeded_state, history = []\<rparr> = unseeded_state"
    by (simp add: unseeded_state_def)
  show ?thesis
    by (simp add: run_graph_def run_workflow_background_def fixture_graph_lookup
          fixture_registered [simplified domIff, simplified] pending_run_def st unseeded_run
          mark_failed_def repr_history)
qed


end
